theory Spec2Isabelle
  imports Main "HOL-Library.Word" "HOL-Library.Monad_Syntax"
begin

unbundle bit_operations_syntax

section \<open>Modbus RTU master library: data model (modBusRTU.h, modBusRTU.c)\<close>

text \<open>
  The C types \<open>uint8_t\<close> and \<open>uint16_t\<close> are words of 8 and 16 bits. A \<open>size_t\<close> is
  modelled as a \<open>nat\<close>: every path of the library that touches memory with a size above
  \<open>MODBUS_RTU_MAX_DATA_SIZE\<close> leaves the arrays (see \<open>array_read\<close>, \<open>memcpy\<close>), and below
  that bound \<open>dataSize + 2\<close> and \<open>dataSize + 4\<close> cannot wrap.

  A function that reads or writes memory returns an \<open>option\<close>: \<open>None\<close> stands for an access
  outside the array or buffer, where C leaves the behaviour undefined.
\<close>

type_synonym uint8_t = "8 word"
type_synonym uint16_t = "16 word"

definition MODBUS_RTU_MAX_DATA_SIZE :: nat where
  "MODBUS_RTU_MAX_DATA_SIZE = 250"

datatype ModbusRTU_ErrorT =
    MODBUS_RTU_SUCCESS
  | MODBUS_RTU_ERROR_CRC
  | MODBUS_RTU_ERROR_RX_TIMEOUT
  | MODBUS_RTU_ERROR_TX_FAILED
  | MODBUS_RTU_ERROR_INVALID_SLAVE_ID
  | MODBUS_RTU_ERROR_INVALID_FRAME
  | MODBUS_RTU_RX_BUSY

text \<open>
  The status type of the STM32 HAL (\<open>stm32f1xx_hal.h\<close>, not part of the repository):
  the library only compares it with \<open>HAL_OK\<close>.
\<close>

datatype HAL_StatusTypeDef = HAL_OK | HAL_ERROR | HAL_BUSY | HAL_TIMEOUT

text \<open>
  \<open>ModbusRTU_HandleT\<close>: the two HAL handles are pointers the library only passes on; they
  are kept as opaque numbers.
\<close>

record ModbusRTU_HandleT =
  huart :: nat
  htim :: nat
  slaveId :: uint8_t
  isRxDataReceived :: bool

text \<open>
  \<open>modBusPacket_t\<close>: \<open>slaveId\<close>, \<open>functionCode\<close> and \<open>data[MODBUS_RTU_MAX_DATA_SIZE + 2]\<close>.
  The fields are prefixed here because the handle has a \<open>slaveId\<close> of its own.
\<close>

record modBusPacket_t =
  pkt_slaveId :: uint8_t
  pkt_functionCode :: uint8_t
  pkt_data :: "uint8_t list"

text \<open>The declared size of the \<open>data\<close> array.\<close>

definition packet_ok :: "modBusPacket_t \<Rightarrow> bool" where
  "packet_ok p = (length (pkt_data p) = MODBUS_RTU_MAX_DATA_SIZE + 2)"

text \<open>
  \<open>(uint8_t*) &packet\<close>: all members are bytes, so the structure has no padding and its
  bytes are the two header fields followed by the array.
\<close>

definition packet_bytes :: "modBusPacket_t \<Rightarrow> uint8_t list" where
  "packet_bytes p = pkt_slaveId p # pkt_functionCode p # pkt_data p"

text \<open>
  The static variables \<open>txPacket\<close> and \<open>rxPacket\<close>, and what the library asks of the UART:
  \<open>uart_tx\<close> lists the buffers handed to \<open>HAL_UART_Transmit\<close>, oldest first, and
  \<open>uart_rx_armed\<close> is the byte count of the last \<open>HAL_UART_Receive_IT\<close> request.
\<close>

record modbus_state =
  txPacket :: modBusPacket_t
  rxPacket :: modBusPacket_t
  uart_tx :: "uint8_t list list"
  uart_rx_armed :: "nat option"

section \<open>Memory accesses\<close>

definition array_read :: "uint8_t list \<Rightarrow> nat \<Rightarrow> uint8_t option" where
  "array_read xs i = (if i < length xs then Some (xs ! i) else None)"

definition array_write :: "uint8_t list \<Rightarrow> nat \<Rightarrow> uint8_t \<Rightarrow> uint8_t list option" where
  "array_write xs i v = (if i < length xs then Some (xs[i := v]) else None)"

text \<open>\<open>memcpy(dest, src, n)\<close>: the first \<open>n\<close> bytes of \<open>dest\<close> become those of \<open>src\<close>.\<close>

definition memcpy :: "uint8_t list \<Rightarrow> uint8_t list \<Rightarrow> nat \<Rightarrow> uint8_t list option" where
  "memcpy dest src n =
     (if n \<le> length dest \<and> n \<le> length src then Some (take n src @ drop n dest) else None)"

section \<open>ModbusRTU\_CalculateCRC\<close>

text \<open>
  The body of the inner loop: \<open>if (crc & 0x0001) { crc >>= 1; crc ^= 0xA001; } else crc >>= 1;\<close>
\<close>

definition crc_shift :: "uint16_t \<Rightarrow> uint16_t" where
  "crc_shift crc =
     (if crc AND 0x0001 \<noteq> 0 then drop_bit 1 crc XOR 0xA001 else drop_bit 1 crc)"

text \<open>\<open>for (uint8_t j = 0; j < 8; j++)\<close>\<close>

function crc_bit_loop :: "nat \<Rightarrow> uint16_t \<Rightarrow> uint16_t" where
  "crc_bit_loop j crc = (if j < 8 then crc_bit_loop (Suc j) (crc_shift crc) else crc)"
  by pat_completeness auto
termination
  by (relation "measure (\<lambda>(j, crc). 8 - j)") auto

declare crc_bit_loop.simps [simp del]

text \<open>
  \<open>for (size_t i = 0; i < length; i++) { crc ^= data[i]; ... }\<close>: the byte is widened to
  16 bits by the integer promotions before the exclusive or.
\<close>

function crc_byte_loop :: "uint8_t list \<Rightarrow> nat \<Rightarrow> nat \<Rightarrow> uint16_t \<Rightarrow> uint16_t option" where
  "crc_byte_loop data len i crc =
     (if i < len then
        (case array_read data i of
           None \<Rightarrow> None
         | Some b \<Rightarrow> crc_byte_loop data len (Suc i) (crc_bit_loop 0 (crc XOR ucast b)))
      else Some crc)"
  by pat_completeness auto
termination
  by (relation "measure (\<lambda>(data, len, i, crc). len - i)") auto

declare crc_byte_loop.simps [simp del]

definition ModbusRTU_CalculateCRC :: "uint8_t list \<Rightarrow> nat \<Rightarrow> uint16_t option" where
  "ModbusRTU_CalculateCRC data len = crc_byte_loop data len 0 0xFFFF"

text \<open>
  The algorithm as the specification words it, on a byte sequence: the accumulator starts at
  \<open>0xFFFF\<close>; each byte is exclusive-ored into its low byte; then, 8 times, the accumulator
  is shifted right by one and, when the bit shifted out was set, exclusive-ored with
  \<open>0xA001\<close>.
\<close>

definition crc16_reference_bit :: "uint16_t \<Rightarrow> uint16_t" where
  "crc16_reference_bit acc = (if bit acc 0 then drop_bit 1 acc XOR 0xA001 else drop_bit 1 acc)"

definition crc16_reference_byte :: "uint8_t \<Rightarrow> uint16_t \<Rightarrow> uint16_t" where
  "crc16_reference_byte b acc = (crc16_reference_bit ^^ 8) (acc XOR ucast b)"

definition crc16_reference :: "uint8_t list \<Rightarrow> uint16_t" where
  "crc16_reference bytes = fold crc16_reference_byte bytes 0xFFFF"

section \<open>The HAL calls\<close>

text \<open>
  Modelled from the spec: \<open>HAL_UART_Transmit\<close> and \<open>HAL_UART_Receive_IT\<close> belong to the
  STM32 HAL, which the repository does not contain. The transport adapter of the
  specification is \<open>send(bytes) -> Ok | Err(TxFailed)\<close> and
  \<open>beginReceive(bufferRef, expectedLength)\<close>. The status that the transmission returns is
  a parameter; the buffer handed over and the length asked for are recorded.
\<close>

definition HAL_UART_Transmit ::
  "HAL_StatusTypeDef \<Rightarrow> uint8_t list \<Rightarrow> modbus_state \<Rightarrow> HAL_StatusTypeDef \<times> modbus_state" where
  "HAL_UART_Transmit status bytes s = (status, s\<lparr>uart_tx := uart_tx s @ [bytes]\<rparr>)"

definition HAL_UART_Receive_IT :: "nat \<Rightarrow> modbus_state \<Rightarrow> modbus_state" where
  "HAL_UART_Receive_IT n s = s\<lparr>uart_rx_armed := Some n\<rparr>"

section \<open>The library's functions\<close>

text \<open>
  \<open>modbusRTUInit\<close> stores the handles and the slave id; it leaves the flag as it is. The
  timer it starts (\<open>HAL_TIM_Base_Start_IT\<close>) is not read anywhere in the library.
\<close>

definition modbusRTUInit ::
  "ModbusRTU_HandleT \<Rightarrow> nat \<Rightarrow> nat \<Rightarrow> uint8_t \<Rightarrow> ModbusRTU_HandleT" where
  "modbusRTUInit modbus uart tim sid = modbus\<lparr>huart := uart, htim := tim, slaveId := sid\<rparr>"

text \<open>
  \<open>modbusRTUSendData(modbus, functionCode, data, dataSize)\<close>; \<open>status\<close> is what
  \<open>HAL_UART_Transmit\<close> returns. The frame is built in \<open>txPacket\<close> and its first
  \<open>dataSize + 4\<close> bytes are handed to the UART.
\<close>

definition modbusRTUSendData ::
  "HAL_StatusTypeDef \<Rightarrow> ModbusRTU_HandleT \<Rightarrow> uint8_t \<Rightarrow> uint8_t list \<Rightarrow> nat \<Rightarrow> modbus_state
     \<Rightarrow> (ModbusRTU_ErrorT \<times> modbus_state) option" where
  "modbusRTUSendData status modbus functionCode data dataSize s =
     (if dataSize > MODBUS_RTU_MAX_DATA_SIZE then Some (MODBUS_RTU_ERROR_INVALID_FRAME, s)
      else do {
        let tx1 = (txPacket s)\<lparr>pkt_slaveId := slaveId modbus, pkt_functionCode := functionCode\<rparr>;
        copied \<leftarrow> memcpy (pkt_data tx1) data dataSize;
        let tx2 = tx1\<lparr>pkt_data := copied\<rparr>;
        calCrc \<leftarrow> ModbusRTU_CalculateCRC (packet_bytes tx2) (dataSize + 2);
        withLow \<leftarrow> array_write (pkt_data tx2) dataSize (ucast (calCrc AND 0xFF));
        withHigh \<leftarrow> array_write withLow (dataSize + 1) (ucast (drop_bit 8 calCrc AND 0xFF));
        let tx3 = tx2\<lparr>pkt_data := withHigh\<rparr>;
        frame \<leftarrow> (if dataSize + 4 \<le> length (packet_bytes tx3)
                  then Some (take (dataSize + 4) (packet_bytes tx3)) else None);
        let (hal, s') = HAL_UART_Transmit status frame (s\<lparr>txPacket := tx3\<rparr>);
        Some (if HAL_OK \<noteq> hal then MODBUS_RTU_ERROR_TX_FAILED else MODBUS_RTU_SUCCESS, s')
      })"

text \<open>\<open>modbusRTUReciveData(modbus, dataSize)\<close>: the return value of the HAL call is ignored.\<close>

definition modbusRTUReciveData ::
  "ModbusRTU_HandleT \<Rightarrow> nat \<Rightarrow> modbus_state \<Rightarrow> ModbusRTU_ErrorT \<times> modbus_state" where
  "modbusRTUReciveData modbus dataSize s =
     (if dataSize > MODBUS_RTU_MAX_DATA_SIZE then (MODBUS_RTU_ERROR_INVALID_FRAME, s)
      else (MODBUS_RTU_SUCCESS, HAL_UART_Receive_IT (dataSize + 4) s))"

text \<open>
  The validation of \<open>modbusRTUCheckRxState\<close> when the flag is set: the slave id, then the
  CRC over \<open>dataSize + 2\<close> bytes against
  \<open>(rxPacket.data[dataSize] << 8) | rxPacket.data[dataSize + 1]\<close>, then the copy into the
  caller's buffer \<open>data\<close>. It returns the result and the caller's buffer.
\<close>

definition check_received ::
  "ModbusRTU_HandleT \<Rightarrow> uint8_t list \<Rightarrow> nat \<Rightarrow> modbus_state
     \<Rightarrow> (ModbusRTU_ErrorT \<times> uint8_t list) option" where
  "check_received modbus data dataSize s =
     (if pkt_slaveId (rxPacket s) \<noteq> slaveId modbus
      then Some (MODBUS_RTU_ERROR_INVALID_SLAVE_ID, data)
      else do {
        calCrc \<leftarrow> ModbusRTU_CalculateCRC (packet_bytes (rxPacket s)) (dataSize + 2);
        b0 \<leftarrow> array_read (pkt_data (rxPacket s)) dataSize;
        b1 \<leftarrow> array_read (pkt_data (rxPacket s)) (dataSize + 1);
        let receivedCRC = (push_bit 8 (ucast b0) OR ucast b1 :: uint16_t);
        if calCrc \<noteq> receivedCRC then Some (MODBUS_RTU_ERROR_CRC, data)
        else do {
          unpacked \<leftarrow> memcpy data (pkt_data (rxPacket s)) dataSize;
          Some (MODBUS_RTU_SUCCESS, unpacked)
        }
      })"

text \<open>
  \<open>modbusRTUCheckRxState(modbus, data, dataSize)\<close> returns the result, the handle and the
  caller's buffer. The second branch is the source's \<open>else if (false)\<close>, marked
  \<open>TODO timeOut\<close> there.
\<close>

definition modbusRTUCheckRxState ::
  "ModbusRTU_HandleT \<Rightarrow> uint8_t list \<Rightarrow> nat \<Rightarrow> modbus_state
     \<Rightarrow> (ModbusRTU_ErrorT \<times> ModbusRTU_HandleT \<times> uint8_t list) option" where
  "modbusRTUCheckRxState modbus data dataSize s =
     (if isRxDataReceived modbus = True then do {
        (result, data') \<leftarrow> check_received modbus data dataSize s;
        Some (result, modbus\<lparr>isRxDataReceived := False\<rparr>, data')
      }
      else if False then
        Some (MODBUS_RTU_ERROR_RX_TIMEOUT, modbus\<lparr>isRxDataReceived := False\<rparr>, data)
      else Some (MODBUS_RTU_RX_BUSY, modbus, data))"

section \<open>Concrete inputs\<close>

text \<open>
  The inputs at which the theorems below are evaluated. \<open>initial_state\<close> is the module after
  start-up (\<open>static modBusPacket_t txPacket = { 0 }\<close>, likewise \<open>rxPacket\<close>, nothing sent or
  armed) and \<open>demo_handle\<close> a handle initialised for slave 1 with the flag clear.
\<close>

definition initial_state :: modbus_state where
  "initial_state =
     \<lparr>txPacket = \<lparr>pkt_slaveId = 0, pkt_functionCode = 0, pkt_data = replicate 252 0\<rparr>,
      rxPacket = \<lparr>pkt_slaveId = 0, pkt_functionCode = 0, pkt_data = replicate 252 0\<rparr>,
      uart_tx = [], uart_rx_armed = None\<rparr>"

definition demo_handle :: ModbusRTU_HandleT where
  "demo_handle = \<lparr>huart = 0, htim = 0, slaveId = 1, isRxDataReceived = False\<rparr>"

text \<open>
  The frame \<open>01 03 00 00 00 0A C5 CD\<close> (slave 1, read holding registers, payload
  \<open>00 00 00 0A\<close>): its CRC is \<open>0xCDC5\<close>, low byte \<open>C5\<close> first, as Modbus RTU sends it.
\<close>

definition read_request :: modBusPacket_t where
  "read_request =
     \<lparr>pkt_slaveId = 0x01, pkt_functionCode = 0x03,
      pkt_data = [0x00, 0x00, 0x00, 0x0A, 0xC5, 0xCD] @ replicate 246 0\<rparr>"

text \<open>The module after that request was sent, and after a receive of 8 bytes was armed.\<close>

definition sent_state :: modbus_state where
  "sent_state =
     initial_state\<lparr>txPacket := read_request,
                    uart_tx := [[0x01, 0x03, 0x00, 0x00, 0x00, 0x0A, 0xC5, 0xCD]]\<rparr>"

definition pending_state :: modbus_state where
  "pending_state = sent_state\<lparr>uart_rx_armed := Some 8\<rparr>"

text \<open>A second request, \<open>01 06 00 01 00 02 59 CB\<close>, and the module after it was sent too.\<close>

definition write_request :: modBusPacket_t where
  "write_request =
     \<lparr>pkt_slaveId = 0x01, pkt_functionCode = 0x06,
      pkt_data = [0x00, 0x01, 0x00, 0x02, 0x59, 0xCB] @ replicate 246 0\<rparr>"

definition overwritten_state :: modbus_state where
  "overwritten_state =
     pending_state\<lparr>txPacket := write_request,
                    uart_tx := [[0x01, 0x03, 0x00, 0x00, 0x00, 0x0A, 0xC5, 0xCD],
                                [0x01, 0x06, 0x00, 0x01, 0x00, 0x02, 0x59, 0xCB]]\<rparr>"

text \<open>The caller's output buffer before a call of \<open>modbusRTUCheckRxState\<close>.\<close>

definition caller_buffer :: "uint8_t list" where
  "caller_buffer = [0xAA, 0xAA, 0xAA, 0xAA]"

text \<open>
  A buffer from slave 2 that passes the CRC comparison of \<open>modbusRTUCheckRxState\<close>: the CRC
  of \<open>02 03 00 00 00 0A\<close> is \<open>0xFEC5\<close>, stored here high byte first.
\<close>

definition foreign_response :: modBusPacket_t where
  "foreign_response =
     \<lparr>pkt_slaveId = 0x02, pkt_functionCode = 0x03,
      pkt_data = [0x00, 0x00, 0x00, 0x0A, 0xFE, 0xC5] @ replicate 246 0\<rparr>"

section \<open>Facts about the CRC loops\<close>

lemma array_read_in: "i < length xs \<Longrightarrow> array_read xs i = Some (xs ! i)"
  by (simp add: array_read_def)

lemma array_read_out: "length xs \<le> i \<Longrightarrow> array_read xs i = None"
  by (simp add: array_read_def)

lemma crc_byte_loop_in_range:
  "len \<le> length data \<Longrightarrow> i \<le> len \<Longrightarrow>
   crc_byte_loop data len i crc =
     Some (fold (\<lambda>b c. crc_bit_loop 0 (c XOR ucast b)) (drop i (take len data)) crc)"
proof (induction data len i crc rule: crc_byte_loop.induct)
  case (1 data len i crc)
  show ?case
  proof (cases "i < len")
    case True
    then have rd: "array_read data i = Some (data ! i)"
      using "1.prems" by (simp add: array_read_in)
    have dr: "drop i (take len data) = data ! i # drop (Suc i) (take len data)"
      using True "1.prems" by (simp add: Cons_nth_drop_Suc [symmetric])
    have "crc_byte_loop data len i crc =
            crc_byte_loop data len (Suc i) (crc_bit_loop 0 (crc XOR ucast (data ! i)))"
      using True rd by (subst crc_byte_loop.simps) simp
    also have "\<dots> = Some (fold (\<lambda>b c. crc_bit_loop 0 (c XOR ucast b))
                         (drop (Suc i) (take len data)) (crc_bit_loop 0 (crc XOR ucast (data ! i))))"
      using True rd "1.prems" by (intro "1.IH") simp_all
    finally show ?thesis by (simp add: dr)
  next
    case False
    then have "i = len" using "1.prems" by simp
    then show ?thesis by (subst crc_byte_loop.simps) simp
  qed
qed

lemma crc_byte_loop_out_of_range:
  "length data < len \<Longrightarrow> i \<le> length data \<Longrightarrow> crc_byte_loop data len i crc = None"
proof (induction data len i crc rule: crc_byte_loop.induct)
  case (1 data len i crc)
  show ?case
  proof (cases "i < length data")
    case True
    then have rd: "array_read data i = Some (data ! i)"
      by (simp add: array_read_in)
    have "crc_byte_loop data len i crc =
            crc_byte_loop data len (Suc i) (crc_bit_loop 0 (crc XOR ucast (data ! i)))"
      using True rd "1.prems" by (subst crc_byte_loop.simps) simp
    also have "\<dots> = None"
      using True rd "1.prems" by (intro "1.IH") simp_all
    finally show ?thesis .
  next
    case False
    then have "array_read data i = None" "i < len"
      using "1.prems" by (simp_all add: array_read_out)
    then show ?thesis by (subst crc_byte_loop.simps) simp
  qed
qed

lemma CalculateCRC_fold:
  "ModbusRTU_CalculateCRC data len =
     (if len \<le> length data
      then Some (fold (\<lambda>b c. crc_bit_loop 0 (c XOR ucast b)) (take len data) 0xFFFF)
      else None)"
  by (simp add: ModbusRTU_CalculateCRC_def crc_byte_loop_in_range crc_byte_loop_out_of_range)

lemma CalculateCRC_prefix:
  "len \<le> length data \<Longrightarrow> ModbusRTU_CalculateCRC data len = ModbusRTU_CalculateCRC (take len data) len"
  by (simp add: CalculateCRC_fold)

lemma crc_bit_loop_0: "crc_bit_loop 0 crc = (crc_shift ^^ 8) crc"
  by (simp add: crc_bit_loop.simps [of _ crc] crc_bit_loop.simps numeral_eq_Suc funpow_swap1)

lemma crc_shift_reference: "crc_shift crc = crc16_reference_bit crc"
  by (simp add: crc_shift_def crc16_reference_bit_def and_one_eq mod_2_eq_odd bit_0  word_eq_iff_unsigned [where ?'a = nat])

lemma crc_bit_loop_reference: "crc_bit_loop 0 (c XOR ucast b) = crc16_reference_byte b c"
proof -
  have "crc_shift = crc16_reference_bit"
    by (rule ext) (rule crc_shift_reference)
  then show ?thesis
    by (simp add: crc_bit_loop_0 crc16_reference_byte_def)
qed

text \<open>
  Claim C2. For every buffer and length, \<open>ModbusRTU_CalculateCRC\<close> returns the CRC-16/MODBUS
  value of the reference algorithm over the first \<open>len\<close> bytes: accumulator \<open>0xFFFF\<close>, each
  byte exclusive-ored into the low byte, then eight conditional shifts with \<open>0xA001\<close>. A
  length beyond the buffer is a read outside it.
\<close>

theorem CalculateCRC_is_reference:
  "ModbusRTU_CalculateCRC data len =
     (if len \<le> length data then Some (crc16_reference (take len data)) else None)"
proof (cases "len \<le> length data")
  case True
  have "fold (\<lambda>b c. crc_bit_loop 0 (c XOR ucast b)) (take len data) 0xFFFF
          = fold crc16_reference_byte (take len data) 0xFFFF"
    by (simp add: crc_bit_loop_reference)
  then show ?thesis
    using True by (simp add: CalculateCRC_fold crc16_reference_def)
next
  case False
  then show ?thesis
    by (simp add: CalculateCRC_fold)
qed

text \<open>The request \<open>01 03 00 00 00 0A\<close>, whose CRC is sent as \<open>C5 CD\<close>.\<close>

theorem CalculateCRC_is_reference_witness:
  "ModbusRTU_CalculateCRC [0x01, 0x03, 0x00, 0x00, 0x00, 0x0A] 6 = Some 0xCDC5 \<and>
   crc16_reference [0x01, 0x03, 0x00, 0x00, 0x00, 0x0A] = 0xCDC5"
proof -
  have "ModbusRTU_CalculateCRC [0x01, 0x03, 0x00, 0x00, 0x00, 0x0A] 6 = Some 0xCDC5"
    by code_simp
  then show ?thesis
    using CalculateCRC_is_reference [of "[0x01, 0x03, 0x00, 0x00, 0x00, 0x0A]" 6] by simp
qed

section \<open>Facts about the memory accesses and the two functions\<close>

lemma memcpy_in: "n \<le> length dest \<Longrightarrow> n \<le> length src \<Longrightarrow> memcpy dest src n = Some (take n src @ drop n dest)"
  by (simp add: memcpy_def)

lemma array_write_in: "i < length xs \<Longrightarrow> array_write xs i v = Some (xs[i := v])"
  by (simp add: array_write_def)

lemma low_byte: "(ucast (c AND 0xFF :: uint16_t) :: uint8_t) = ucast c"
proof -
  have m: "(0xFF :: uint16_t) = mask 8"
    by (simp add: mask_eq_exp_minus_1)
  show ?thesis
    unfolding m by (rule bit_word_eqI) (auto simp add: bit_simps)
qed

lemma high_byte: "(ucast (drop_bit 8 c AND 0xFF :: uint16_t) :: uint8_t) = ucast (drop_bit 8 c)"
  by (rule low_byte)

text \<open>The \<open>data\<close> array after the copy and the two CRC bytes.\<close>

lemma tx_data_layout:
  assumes "n + 2 \<le> length old" "n \<le> length data"
  shows "(take n data @ drop n old)[n := lo, Suc n := hi] = take n data @ lo # hi # drop (n + 2) old"
proof -
  have "drop n old = old ! n # old ! Suc n # drop (n + 2) old"
    using assms by (simp add: Cons_nth_drop_Suc)
  then show ?thesis
    using assms by (simp add: list_update_append)
qed

lemma SendData_builds_frame:
  assumes size: "dataSize \<le> MODBUS_RTU_MAX_DATA_SIZE"
    and src: "dataSize \<le> length data"
    and tx: "packet_ok (txPacket s)"
    and crc: "ModbusRTU_CalculateCRC (slaveId modbus # functionCode # take dataSize data) (dataSize + 2) = Some calCrc"
  shows "modbusRTUSendData status modbus functionCode data dataSize s =
     Some (if status = HAL_OK then MODBUS_RTU_SUCCESS else MODBUS_RTU_ERROR_TX_FAILED,
           s\<lparr>txPacket := \<lparr>pkt_slaveId = slaveId modbus, pkt_functionCode = functionCode,
                  pkt_data = take dataSize data @ ucast calCrc # ucast (drop_bit 8 calCrc)
                             # drop (dataSize + 2) (pkt_data (txPacket s))\<rparr>,
             uart_tx := uart_tx s @ [slaveId modbus # functionCode # take dataSize data
                             @ [ucast calCrc, ucast (drop_bit 8 calCrc)]]\<rparr>)"
proof -
  let ?old = "pkt_data (txPacket s)"
  let ?copied = "take dataSize data @ drop dataSize ?old"
  have len: "length ?old = 252"
    using tx by (simp add: packet_ok_def MODBUS_RTU_MAX_DATA_SIZE_def)
  have n: "dataSize \<le> 250"
    using size by (simp add: MODBUS_RTU_MAX_DATA_SIZE_def)
  have cp: "memcpy ?old data dataSize = Some ?copied"
    using len n src by (simp add: memcpy_in)
  have lc: "length ?copied = 252"
    using len n src by simp
  have pre: "take (dataSize + 2) (slaveId modbus # functionCode # ?copied)
               = slaveId modbus # functionCode # take dataSize data"
    using src by simp
  have crc2: "ModbusRTU_CalculateCRC (slaveId modbus # functionCode # ?copied) (dataSize + 2) = Some calCrc"
    using crc lc n src by (simp add: CalculateCRC_fold)
  have w1: "array_write ?copied dataSize (ucast (calCrc AND 0xFF)) = Some (?copied[dataSize := ucast calCrc])"
    using lc n by (simp add: array_write_in low_byte)
  have w2: "array_write (?copied[dataSize := ucast calCrc]) (dataSize + 1) (ucast (drop_bit 8 calCrc AND 0xFF))
              = Some (?copied[dataSize := ucast calCrc, Suc dataSize := ucast (drop_bit 8 calCrc)])"
    using lc n by (simp add: array_write_in high_byte)
  have lay: "?copied[dataSize := ucast calCrc, Suc dataSize := ucast (drop_bit 8 calCrc)]
               = take dataSize data @ ucast calCrc # ucast (drop_bit 8 calCrc) # drop (dataSize + 2) ?old"
    using len n src by (intro tx_data_layout) simp_all
  have fr: "take (dataSize + 4) (slaveId modbus # functionCode # take dataSize data @ ucast calCrc # ucast (drop_bit 8 calCrc) # drop (dataSize + 2) ?old)
              = slaveId modbus # functionCode # take dataSize data @ [ucast calCrc, ucast (drop_bit 8 calCrc)]"
  proof -
    have "dataSize + 4 = Suc (Suc (dataSize + 2))" by simp
    then show ?thesis using src by (simp only: take_Suc_Cons) simp
  qed
  have fl: "dataSize + 4 \<le> length (slaveId modbus # functionCode # take dataSize data @ ucast calCrc # ucast (drop_bit 8 calCrc) # drop (dataSize + 2) ?old)"
    using len n src by simp
  show ?thesis
    unfolding modbusRTUSendData_def
    using size len n src
    by (simp add: cp packet_bytes_def crc2 [simplified] array_write_in low_byte high_byte Let_def
          lay [simplified] fr [simplified] HAL_UART_Transmit_def del: take_Suc_Cons)
qed


lemma check_received_in_bounds:
  assumes rx: "packet_ok (rxPacket s)"
    and size: "dataSize \<le> MODBUS_RTU_MAX_DATA_SIZE"
    and dst: "dataSize \<le> length data"
  shows "check_received modbus data dataSize s =
     Some (if pkt_slaveId (rxPacket s) \<noteq> slaveId modbus
             then (MODBUS_RTU_ERROR_INVALID_SLAVE_ID, data)
           else if ModbusRTU_CalculateCRC (packet_bytes (rxPacket s)) (dataSize + 2)
                   \<noteq> Some (push_bit 8 (ucast (pkt_data (rxPacket s) ! dataSize))
                             OR ucast (pkt_data (rxPacket s) ! (dataSize + 1)))
             then (MODBUS_RTU_ERROR_CRC, data)
           else (MODBUS_RTU_SUCCESS, take dataSize (pkt_data (rxPacket s)) @ drop dataSize data))"
proof -
  have len: "length (pkt_data (rxPacket s)) = 252"
    using rx by (simp add: packet_ok_def MODBUS_RTU_MAX_DATA_SIZE_def)
  have n: "dataSize \<le> 250"
    using size by (simp add: MODBUS_RTU_MAX_DATA_SIZE_def)
  obtain c where c: "ModbusRTU_CalculateCRC (packet_bytes (rxPacket s)) (dataSize + 2) = Some c"
    using len n by (simp add: CalculateCRC_fold packet_bytes_def)
  show ?thesis
    unfolding check_received_def
    using len n dst c
    by (simp add: array_read_in memcpy_in)
qed

lemma CheckRxState_flag_set:
  "isRxDataReceived modbus \<Longrightarrow>
   modbusRTUCheckRxState modbus data dataSize s =
     (case check_received modbus data dataSize s of
        None \<Rightarrow> None
      | Some (result, data') \<Rightarrow> Some (result, modbus\<lparr>isRxDataReceived := False\<rparr>, data'))"
  by (simp add: modbusRTUCheckRxState_def split: option.splits)

lemma CheckRxState_flag_clear:
  "\<not> isRxDataReceived modbus \<Longrightarrow>
   modbusRTUCheckRxState modbus data dataSize s = Some (MODBUS_RTU_RX_BUSY, modbus, data)"
  by (simp add: modbusRTUCheckRxState_def)

lemma check_received_keeps_buffer:
  "check_received modbus data dataSize s = Some (result, data') \<Longrightarrow>
   result \<noteq> MODBUS_RTU_SUCCESS \<Longrightarrow> data' = data"
  by (auto simp add: check_received_def Let_def bind_eq_Some_conv split: if_splits)

lemma check_received_results:
  "check_received modbus data dataSize s = Some (result, data') \<Longrightarrow>
   result = MODBUS_RTU_SUCCESS \<or> result = MODBUS_RTU_ERROR_CRC
     \<or> result = MODBUS_RTU_ERROR_INVALID_SLAVE_ID"
  by (auto simp add: check_received_def Let_def bind_eq_Some_conv split: if_splits)

lemma packet_ok_examples:
  "packet_ok (txPacket initial_state)" "packet_ok (rxPacket initial_state)"
  "packet_ok read_request" "packet_ok write_request" "packet_ok foreign_response"
  by (simp_all add: packet_ok_def initial_state_def read_request_def write_request_def
        foreign_response_def MODBUS_RTU_MAX_DATA_SIZE_def)

lemma check_received_success_payload:
  "check_received modbus data dataSize s = Some (MODBUS_RTU_SUCCESS, data') \<Longrightarrow>
   data' = take dataSize (pkt_data (rxPacket s)) @ drop dataSize data"
  by (auto simp add: check_received_def memcpy_def Let_def bind_eq_Some_conv split: if_splits)

text \<open>
  The declared array sizes are kept: \<open>modbusRTUSendData\<close> writes inside \<open>txPacket\<close> and never
  touches \<open>rxPacket\<close>.
\<close>

lemma SendData_keeps_array_size:
  assumes sent: "modbusRTUSendData status modbus functionCode data dataSize s = Some (result, s')"
    and tx: "packet_ok (txPacket s)"
  shows "packet_ok (txPacket s') \<and> rxPacket s' = rxPacket s"
proof (cases "dataSize \<le> MODBUS_RTU_MAX_DATA_SIZE")
  case False
  then show ?thesis
    using sent tx by (simp add: modbusRTUSendData_def)
next
  case True
  have src: "dataSize \<le> length data"
    using sent True
    by (auto simp add: modbusRTUSendData_def memcpy_def Let_def bind_eq_Some_conv split: if_splits)
  obtain c where c: "ModbusRTU_CalculateCRC (slaveId modbus # functionCode # take dataSize data)
                       (dataSize + 2) = Some c"
    using src by (simp add: CalculateCRC_fold)
  have "length (pkt_data (txPacket s)) = 252" and "dataSize \<le> 250"
    using tx True by (simp_all add: packet_ok_def MODBUS_RTU_MAX_DATA_SIZE_def)
  then show ?thesis
    using sent src
    by (auto simp add: SendData_builds_frame [OF True src tx c] packet_ok_def
          MODBUS_RTU_MAX_DATA_SIZE_def)
qed

text \<open>The two CRC bytes of the sender, and what the receiver makes of them.\<close>

lemma crc_bytes_join:
  "push_bit 8 (ucast (ucast (drop_bit 8 c) :: uint8_t)) OR ucast (ucast c :: uint8_t) = (c :: uint16_t)"
  by (rule bit_word_eqI) (auto simp add: bit_simps)

lemma low_byte_of_join:
  "(ucast (push_bit 8 (ucast (b0 :: uint8_t)) OR ucast (b1 :: uint8_t) :: uint16_t) :: uint8_t) = b1"
  by (rule bit_word_eqI) (auto simp add: bit_simps)

lemma swapped_crc_equal:
  "(c = push_bit 8 (ucast (ucast c :: uint8_t)) OR ucast (ucast (drop_bit 8 c) :: uint8_t))
     = ((ucast c :: uint8_t) = ucast (drop_bit 8 (c :: uint16_t)))"
proof
  assume "c = push_bit 8 (ucast (ucast c :: uint8_t)) OR ucast (ucast (drop_bit 8 c) :: uint8_t)"
  then have "(ucast c :: uint8_t)
      = ucast (push_bit 8 (ucast (ucast c :: uint8_t)) OR ucast (ucast (drop_bit 8 c) :: uint8_t) :: uint16_t)"
    by simp
  then show "(ucast c :: uint8_t) = ucast (drop_bit 8 c)"
    by (simp only: low_byte_of_join)
next
  assume "(ucast c :: uint8_t) = ucast (drop_bit 8 c)"
  then show "c = push_bit 8 (ucast (ucast c :: uint8_t)) OR ucast (ucast (drop_bit 8 c) :: uint8_t)"
    using crc_bytes_join [of c] by simp
qed

text \<open>
  What the receiver returns for a frame of the sender, in general: success only when the two
  bytes of the CRC are equal.
\<close>

lemma roundtrip_result:
  assumes size: "dataSize \<le> MODBUS_RTU_MAX_DATA_SIZE"
    and src: "dataSize \<le> length data"
    and dst: "dataSize \<le> length out"
    and tx: "packet_ok (txPacket s)"
    and crc: "ModbusRTU_CalculateCRC (slaveId modbus # functionCode # take dataSize data) (dataSize + 2)
                = Some calCrc"
    and sent: "modbusRTUSendData status modbus functionCode data dataSize s = Some (result, s')"
  shows "modbusRTUCheckRxState (modbus\<lparr>isRxDataReceived := True\<rparr>) out dataSize
             (s'\<lparr>rxPacket := txPacket s'\<rparr>)
           = Some (if (ucast calCrc :: uint8_t) = ucast (drop_bit 8 calCrc)
                   then (MODBUS_RTU_SUCCESS, modbus\<lparr>isRxDataReceived := False\<rparr>,
                         take dataSize data @ drop dataSize out)
                   else (MODBUS_RTU_ERROR_CRC, modbus\<lparr>isRxDataReceived := False\<rparr>, out))"
proof -
  let ?lo = "ucast calCrc :: uint8_t" and ?hi = "ucast (drop_bit 8 calCrc) :: uint8_t"
  let ?d = "take dataSize data @ ?lo # ?hi # drop (dataSize + 2) (pkt_data (txPacket s))"
  let ?p = "\<lparr>pkt_slaveId = slaveId modbus, pkt_functionCode = functionCode, pkt_data = ?d\<rparr>"
  let ?s = "s'\<lparr>rxPacket := ?p\<rparr>"
  let ?m = "modbus\<lparr>isRxDataReceived := True\<rparr>"
  have len: "length (pkt_data (txPacket s)) = 252" and n: "dataSize \<le> 250"
    using tx size by (simp_all add: packet_ok_def MODBUS_RTU_MAX_DATA_SIZE_def)
  have txp: "txPacket s' = ?p"
    using sent by (auto simp add: SendData_builds_frame [OF size src tx crc])
  have ok: "packet_ok (rxPacket ?s)"
    using len n src by (simp add: packet_ok_def MODBUS_RTU_MAX_DATA_SIZE_def)
  have same: "pkt_slaveId (rxPacket ?s) = slaveId ?m"
    by simp
  have b0: "pkt_data (rxPacket ?s) ! dataSize = ?lo"
    and b1: "pkt_data (rxPacket ?s) ! (dataSize + 1) = ?hi"
    using src by (simp_all add: nth_append)
  have pay: "take dataSize (pkt_data (rxPacket ?s)) = take dataSize data"
    using src by simp
  have crc': "ModbusRTU_CalculateCRC (packet_bytes (rxPacket ?s)) (dataSize + 2) = Some calCrc"
    using crc src len n by (simp add: packet_bytes_def CalculateCRC_fold)
  have "check_received ?m out dataSize ?s
          = Some (if ?lo = ?hi then (MODBUS_RTU_SUCCESS, take dataSize data @ drop dataSize out)
                  else (MODBUS_RTU_ERROR_CRC, out))"
    unfolding check_received_in_bounds [OF ok size dst] same crc' b0 b1 pay
    by (simp add: swapped_crc_equal)
  then show ?thesis
    by (simp add: CheckRxState_flag_set txp)
qed

section \<open>The claims\<close>

subsection \<open>Encoding and decoding\<close>

text \<open>
  Claim C1 (round trip). The claim: a frame built by \<open>modbusRTUSendData\<close>, put into the
  receive buffer with the flag set and checked by \<open>modbusRTUCheckRxState\<close> with the same
  slave id and payload length, gives back the payload with \<open>MODBUS_RTU_SUCCESS\<close>. The code
  at slave 1, function \<open>03\<close>, payload \<open>00 00 00 0A\<close>: the frame sent is
  \<open>01 03 00 00 00 0A C5 CD\<close>, and the check of that very frame returns
  \<open>MODBUS_RTU_ERROR_CRC\<close> and leaves the caller's buffer as it was. The sender stores the
  CRC low byte first; the receiver reads the first of the two bytes as the high byte
  (\<open>roundtrip_result\<close> above has every other input).
\<close>

theorem roundtrip_reports_crc_error:
  "modbusRTUSendData HAL_OK demo_handle 0x03 [0x00, 0x00, 0x00, 0x0A] 4 initial_state
     = Some (MODBUS_RTU_SUCCESS, sent_state) \<and>
   uart_tx sent_state = [[0x01, 0x03, 0x00, 0x00, 0x00, 0x0A, 0xC5, 0xCD]] \<and>
   take 8 (packet_bytes (txPacket sent_state)) = [0x01, 0x03, 0x00, 0x00, 0x00, 0x0A, 0xC5, 0xCD] \<and>
   modbusRTUCheckRxState (demo_handle\<lparr>isRxDataReceived := True\<rparr>) caller_buffer 4
       (sent_state\<lparr>rxPacket := txPacket sent_state\<rparr>)
     = Some (MODBUS_RTU_ERROR_CRC, demo_handle, caller_buffer)"
  by code_simp

text \<open>
  Claim C3 (the CRC comparison of the receiver). The claim: the received CRC is rebuilt
  from the bytes at \<open>data[dataSize]\<close> and \<open>data[dataSize + 1]\<close> with the second byte as the
  high byte, and \<open>MODBUS_RTU_ERROR_CRC\<close> is returned exactly when it differs from the CRC
  computed over the first \<open>dataSize + 2\<close> bytes. The code at the buffer
  \<open>01 03 00 00 00 0A C5 CD\<close> with \<open>dataSize = 4\<close>: the computed CRC is \<open>0xCDC5\<close>, the two
  bytes with the second as the high byte give \<open>0xCDC5\<close> as well, and the result is
  \<open>MODBUS_RTU_ERROR_CRC\<close> all the same, because the code takes the first byte as the high
  byte (\<open>0xC5CD\<close>).
\<close>

theorem second_byte_high_rejected:
  "ModbusRTU_CalculateCRC (packet_bytes read_request) (4 + 2) = Some 0xCDC5 \<and>
   (push_bit 8 (ucast (pkt_data read_request ! (4 + 1))) OR ucast (pkt_data read_request ! 4)
      :: uint16_t) = 0xCDC5 \<and>
   (push_bit 8 (ucast (pkt_data read_request ! 4)) OR ucast (pkt_data read_request ! (4 + 1))
      :: uint16_t) = 0xC5CD \<and>
   modbusRTUCheckRxState (demo_handle\<lparr>isRxDataReceived := True\<rparr>) caller_buffer 4
       (initial_state\<lparr>rxPacket := read_request\<rparr>)
     = Some (MODBUS_RTU_ERROR_CRC, demo_handle, caller_buffer)"
  by code_simp

subsection \<open>The transaction state\<close>

text \<open>
  Claim C4 (timeout). The claim: with a receive armed and the flag never set,
  \<open>modbusRTUCheckRxState\<close> returns \<open>MODBUS_RTU_ERROR_RX_TIMEOUT\<close> once the timeout has
  elapsed. The code: the function reads no clock, its timeout branch is \<open>else if (false)\<close>,
  so with the flag clear every call returns \<open>MODBUS_RTU_RX_BUSY\<close> and changes nothing, and
  no call at all returns \<open>MODBUS_RTU_ERROR_RX_TIMEOUT\<close>.
\<close>

theorem timeout_never_reported:
  "modbusRTUCheckRxState (modbus\<lparr>isRxDataReceived := False\<rparr>) data dataSize s
     = Some (MODBUS_RTU_RX_BUSY, modbus\<lparr>isRxDataReceived := False\<rparr>, data) \<and>
   modbusRTUCheckRxState modbus data dataSize s
     \<noteq> Some (MODBUS_RTU_ERROR_RX_TIMEOUT, modbus', data')"
proof
  show "modbusRTUCheckRxState (modbus\<lparr>isRxDataReceived := False\<rparr>) data dataSize s
     = Some (MODBUS_RTU_RX_BUSY, modbus\<lparr>isRxDataReceived := False\<rparr>, data)"
    by (simp add: CheckRxState_flag_clear)
  show "modbusRTUCheckRxState modbus data dataSize s
     \<noteq> Some (MODBUS_RTU_ERROR_RX_TIMEOUT, modbus', data')"
  proof (cases "isRxDataReceived modbus")
    case True
    then show ?thesis
      using check_received_results [of modbus data dataSize s MODBUS_RTU_ERROR_RX_TIMEOUT]
      by (auto simp add: CheckRxState_flag_set split: option.splits)
  next
    case False
    then show ?thesis by (simp add: CheckRxState_flag_clear)
  qed
qed

text \<open>After the request was sent and the receive armed, polling reports busy.\<close>

theorem timeout_never_reported_witness:
  "modbusRTUReciveData demo_handle 4 sent_state = (MODBUS_RTU_SUCCESS, pending_state) \<and>
   modbusRTUCheckRxState demo_handle caller_buffer 4 pending_state
     = Some (MODBUS_RTU_RX_BUSY, demo_handle, caller_buffer)"
proof -
  have "demo_handle\<lparr>isRxDataReceived := False\<rparr> = demo_handle"
    by (simp add: demo_handle_def)
  moreover have "modbusRTUReciveData demo_handle 4 sent_state = (MODBUS_RTU_SUCCESS, pending_state)"
    by (simp add: modbusRTUReciveData_def MODBUS_RTU_MAX_DATA_SIZE_def HAL_UART_Receive_IT_def
          pending_state_def)
  ultimately show ?thesis
    using timeout_never_reported [of demo_handle caller_buffer 4 pending_state] by simp
qed

text \<open>
  Claim C5 (one transaction at a time), as stated: in every state where a transaction is
  pending, \<open>modbusRTUSendData\<close> fails instead of overwriting the shared buffers. It does
  not: after a request was sent and a receive armed, with the flag still clear (the check
  reports busy), a second \<open>modbusRTUSendData\<close> returns \<open>MODBUS_RTU_SUCCESS\<close> and has
  overwritten \<open>txPacket\<close>.
\<close>

theorem submit_while_pending_counterexample:
  "modbusRTUSendData HAL_OK demo_handle 0x03 [0x00, 0x00, 0x00, 0x0A] 4 initial_state
     = Some (MODBUS_RTU_SUCCESS, sent_state) \<and>
   modbusRTUReciveData demo_handle 4 sent_state = (MODBUS_RTU_SUCCESS, pending_state) \<and>
   modbusRTUCheckRxState demo_handle caller_buffer 4 pending_state
     = Some (MODBUS_RTU_RX_BUSY, demo_handle, caller_buffer) \<and>
   modbusRTUSendData HAL_OK demo_handle 0x06 [0x00, 0x01, 0x00, 0x02] 4 pending_state
     = Some (MODBUS_RTU_SUCCESS, overwritten_state) \<and>
   txPacket overwritten_state \<noteq> txPacket pending_state"
  by code_simp

text \<open>
  Claim C5, amended. \<open>modbusRTUSendData\<close> keeps no record of a pending transaction: in
  every state, a call with \<open>dataSize \<le> 250\<close> (and a payload buffer of that many bytes)
  writes the new frame over \<open>txPacket\<close> (slave id, function code, payload, CRC low byte,
  CRC high byte; the bytes behind the frame stay), hands exactly that frame to the UART
  and returns \<open>MODBUS_RTU_SUCCESS\<close> when the transmission succeeds,
  \<open>MODBUS_RTU_ERROR_TX_FAILED\<close> otherwise; nothing else of the state changes, so
  \<open>rxPacket\<close> and the armed receive are left as they were.
\<close>

theorem submit_ignores_pending:
  assumes "dataSize \<le> MODBUS_RTU_MAX_DATA_SIZE"
    and "dataSize \<le> length data"
    and "packet_ok (txPacket s)"
  shows "\<exists>calCrc.
           ModbusRTU_CalculateCRC (slaveId modbus # functionCode # take dataSize data) (dataSize + 2)
             = Some calCrc
         \<and> modbusRTUSendData status modbus functionCode data dataSize s
             = Some (if status = HAL_OK then MODBUS_RTU_SUCCESS else MODBUS_RTU_ERROR_TX_FAILED,
                     s\<lparr>txPacket :=
                          \<lparr>pkt_slaveId = slaveId modbus, pkt_functionCode = functionCode,
                           pkt_data = take dataSize data @ ucast calCrc # ucast (drop_bit 8 calCrc)
                                      # drop (dataSize + 2) (pkt_data (txPacket s))\<rparr>,
                        uart_tx := uart_tx s @ [slaveId modbus # functionCode # take dataSize data
                                                @ [ucast calCrc, ucast (drop_bit 8 calCrc)]]\<rparr>)"
proof -
  obtain c where c: "ModbusRTU_CalculateCRC (slaveId modbus # functionCode # take dataSize data)
                       (dataSize + 2) = Some c"
    using assms(2) by (simp add: CalculateCRC_fold)
  show ?thesis
    using c SendData_builds_frame [OF assms c, of status] by blast
qed

text \<open>
  The second request, sent while the first is pending: the frame \<open>01 06 00 01 00 02 59 CB\<close>
  replaces the first in \<open>txPacket\<close> and goes to the UART.
\<close>

theorem submit_ignores_pending_witness:
  "modbusRTUSendData HAL_OK demo_handle 0x06 [0x00, 0x01, 0x00, 0x02] 4 pending_state
     = Some (MODBUS_RTU_SUCCESS, overwritten_state) \<and>
   txPacket overwritten_state = write_request \<and>
   uart_tx overwritten_state = uart_tx pending_state @ [[0x01, 0x06, 0x00, 0x01, 0x00, 0x02, 0x59, 0xCB]] \<and>
   rxPacket overwritten_state = rxPacket pending_state \<and>
   uart_rx_armed overwritten_state = Some 8"
proof -
  have size: "(4::nat) \<le> MODBUS_RTU_MAX_DATA_SIZE"
    by (simp add: MODBUS_RTU_MAX_DATA_SIZE_def)
  have src: "4 \<le> length [0x00, 0x01, 0x00, 0x02 :: uint8_t]"
    by simp
  have tx: "packet_ok (txPacket pending_state)"
    by (simp add: pending_state_def sent_state_def packet_ok_examples)
  have crc: "ModbusRTU_CalculateCRC (slaveId demo_handle # 0x06 # take 4 [0x00, 0x01, 0x00, 0x02]) (4 + 2)
               = Some 0xCB59"
    by code_simp
  have old: "drop (4 + 2) (pkt_data (txPacket pending_state)) = replicate 246 0"
    by (simp add: pending_state_def sent_state_def read_request_def)
  have sid: "slaveId demo_handle = 0x01"
    by (simp add: demo_handle_def)
  obtain calCrc where
      c: "ModbusRTU_CalculateCRC (slaveId demo_handle # 0x06 # take 4 [0x00, 0x01, 0x00, 0x02]) (4 + 2)
            = Some calCrc"
    and sent: "modbusRTUSendData HAL_OK demo_handle 0x06 [0x00, 0x01, 0x00, 0x02] 4 pending_state
          = Some (if HAL_OK = HAL_OK then MODBUS_RTU_SUCCESS else MODBUS_RTU_ERROR_TX_FAILED,
                  pending_state\<lparr>txPacket :=
                       \<lparr>pkt_slaveId = slaveId demo_handle, pkt_functionCode = 0x06,
                        pkt_data = take 4 [0x00, 0x01, 0x00, 0x02] @ ucast calCrc
                            # ucast (drop_bit 8 calCrc) # drop (4 + 2) (pkt_data (txPacket pending_state))\<rparr>,
                     uart_tx := uart_tx pending_state @ [slaveId demo_handle # 0x06
                            # take 4 [0x00, 0x01, 0x00, 0x02]
                            @ [ucast calCrc, ucast (drop_bit 8 calCrc)]]\<rparr>)"
    using submit_ignores_pending [OF size src tx, of demo_handle "0x06" HAL_OK] by blast
  have "calCrc = 0xCB59"
    using c crc by simp
  then have "modbusRTUSendData HAL_OK demo_handle 0x06 [0x00, 0x01, 0x00, 0x02] 4 pending_state
          = Some (MODBUS_RTU_SUCCESS, overwritten_state)"
    using sent old sid
    by (simp add: overwritten_state_def write_request_def pending_state_def sent_state_def)
  then show ?thesis
    by (simp add: overwritten_state_def pending_state_def sent_state_def)
qed

subsection \<open>The frame and its size\<close>

text \<open>
  Claim C6 (frame layout). For \<open>dataSize \<le> 250\<close>, the buffer handed to the UART is the
  slave id, the function code, the \<open>dataSize\<close> payload bytes, then the low byte and the high
  byte of the CRC that \<open>ModbusRTU_CalculateCRC\<close> gives for the \<open>dataSize + 2\<close> bytes before
  them: \<open>dataSize + 4\<close> bytes, the first bytes of \<open>txPacket\<close>.
\<close>

theorem frame_layout:
  assumes "dataSize \<le> MODBUS_RTU_MAX_DATA_SIZE"
    and "dataSize \<le> length data"
    and "packet_ok (txPacket s)"
  shows "\<exists>calCrc result s'.
           ModbusRTU_CalculateCRC (slaveId modbus # functionCode # take dataSize data) (dataSize + 2)
             = Some calCrc
         \<and> modbusRTUSendData status modbus functionCode data dataSize s = Some (result, s')
         \<and> uart_tx s' = uart_tx s @ [slaveId modbus # functionCode # take dataSize data
                                       @ [ucast calCrc, ucast (drop_bit 8 calCrc)]]
         \<and> take (dataSize + 4) (packet_bytes (txPacket s')) = last (uart_tx s')
         \<and> length (last (uart_tx s')) = dataSize + 4"
proof -
  obtain c where c: "ModbusRTU_CalculateCRC (slaveId modbus # functionCode # take dataSize data)
                       (dataSize + 2) = Some c"
    using assms(2) by (simp add: CalculateCRC_fold)
  have "dataSize + 4 = Suc (Suc (dataSize + 2))"
    by simp
  then have "take (dataSize + 4) (slaveId modbus # functionCode # take dataSize data
                 @ ucast c # ucast (drop_bit 8 c) # drop (dataSize + 2) (pkt_data (txPacket s)))
               = slaveId modbus # functionCode # take dataSize data @ [ucast c, ucast (drop_bit 8 c)]"
    using assms(2) by (simp only: take_Suc_Cons) simp
  then show ?thesis
    using assms(2)
    by (intro exI [of _ c]) (simp add: SendData_builds_frame [OF assms c] c [simplified] packet_bytes_def)
qed

text \<open>The request \<open>01 03 00 00 00 0A\<close> is sent as \<open>01 03 00 00 00 0A C5 CD\<close>.\<close>

theorem frame_layout_witness:
  "\<exists>s'. modbusRTUSendData HAL_OK demo_handle 0x03 [0x00, 0x00, 0x00, 0x0A] 4 initial_state
            = Some (MODBUS_RTU_SUCCESS, s')
        \<and> uart_tx s' = [[0x01, 0x03, 0x00, 0x00, 0x00, 0x0A, 0xC5, 0xCD]]"
proof -
  have crc: "ModbusRTU_CalculateCRC [0x01, 0x03, 0x00, 0x00, 0x00, 0x0A] 6 = Some 0xCDC5"
    by code_simp
  have "(4::nat) \<le> MODBUS_RTU_MAX_DATA_SIZE"
    by (simp add: MODBUS_RTU_MAX_DATA_SIZE_def)
  moreover have "4 \<le> length [0x00, 0x00, 0x00, 0x0A :: uint8_t]"
    by simp
  moreover have "packet_ok (txPacket initial_state)"
    by (rule packet_ok_examples)
  ultimately obtain calCrc result s' where
      "ModbusRTU_CalculateCRC (slaveId demo_handle # 0x03 # take 4 [0x00, 0x00, 0x00, 0x0A]) (4 + 2)
         = Some calCrc"
    and "modbusRTUSendData HAL_OK demo_handle 0x03 [0x00, 0x00, 0x00, 0x0A] 4 initial_state
         = Some (result, s')"
    and "uart_tx s' = uart_tx initial_state @ [slaveId demo_handle # 0x03 # take 4 [0x00, 0x00, 0x00, 0x0A]
                                       @ [ucast calCrc, ucast (drop_bit 8 calCrc)]]"
    using frame_layout [of 4 "[0x00, 0x00, 0x00, 0x0A]" initial_state demo_handle "0x03" HAL_OK]
    by blast
  moreover have "modbusRTUSendData HAL_OK demo_handle 0x03 [0x00, 0x00, 0x00, 0x0A] 4 initial_state
         = Some (MODBUS_RTU_SUCCESS, sent_state)"
    by code_simp
  ultimately show ?thesis
    using crc by (simp add: demo_handle_def initial_state_def)
qed

text \<open>
  Claim C7 (size limit). With a data size above 250 (251 for one), \<open>modbusRTUSendData\<close> and
  \<open>modbusRTUReciveData\<close> return \<open>MODBUS_RTU_ERROR_INVALID_FRAME\<close> and change nothing. With
  a size up to 250 (250 for one) neither returns that error: the receive is armed for
  \<open>dataSize + 4\<close> bytes, and the send succeeds when the transmission does.
\<close>

theorem oversize_is_invalid_frame:
  "(MODBUS_RTU_MAX_DATA_SIZE < dataSize \<longrightarrow>
      modbusRTUSendData status modbus functionCode data dataSize s
        = Some (MODBUS_RTU_ERROR_INVALID_FRAME, s)
    \<and> modbusRTUReciveData modbus dataSize s = (MODBUS_RTU_ERROR_INVALID_FRAME, s))
 \<and> (dataSize \<le> MODBUS_RTU_MAX_DATA_SIZE \<longrightarrow>
      modbusRTUReciveData modbus dataSize s
        = (MODBUS_RTU_SUCCESS, s\<lparr>uart_rx_armed := Some (dataSize + 4)\<rparr>)
    \<and> modbusRTUSendData status modbus functionCode data dataSize s
        \<noteq> Some (MODBUS_RTU_ERROR_INVALID_FRAME, s'))
 \<and> (dataSize \<le> MODBUS_RTU_MAX_DATA_SIZE \<and> dataSize \<le> length data \<and> packet_ok (txPacket s) \<longrightarrow>
      (\<exists>s''. modbusRTUSendData HAL_OK modbus functionCode data dataSize s
               = Some (MODBUS_RTU_SUCCESS, s'')))"
proof (intro conjI impI)
  assume "MODBUS_RTU_MAX_DATA_SIZE < dataSize"
  then show "modbusRTUSendData status modbus functionCode data dataSize s
        = Some (MODBUS_RTU_ERROR_INVALID_FRAME, s)"
    and "modbusRTUReciveData modbus dataSize s = (MODBUS_RTU_ERROR_INVALID_FRAME, s)"
    by (simp_all add: modbusRTUSendData_def modbusRTUReciveData_def)
next
  assume "dataSize \<le> MODBUS_RTU_MAX_DATA_SIZE"
  then show "modbusRTUReciveData modbus dataSize s
        = (MODBUS_RTU_SUCCESS, s\<lparr>uart_rx_armed := Some (dataSize + 4)\<rparr>)"
    by (simp add: modbusRTUReciveData_def HAL_UART_Receive_IT_def)
next
  assume "dataSize \<le> MODBUS_RTU_MAX_DATA_SIZE"
  then show "modbusRTUSendData status modbus functionCode data dataSize s
        \<noteq> Some (MODBUS_RTU_ERROR_INVALID_FRAME, s')"
    by (auto simp add: modbusRTUSendData_def Let_def HAL_UART_Transmit_def bind_eq_Some_conv
          split: if_splits)
next
  assume a: "dataSize \<le> MODBUS_RTU_MAX_DATA_SIZE \<and> dataSize \<le> length data \<and> packet_ok (txPacket s)"
  then obtain c where c: "ModbusRTU_CalculateCRC (slaveId modbus # functionCode # take dataSize data)
                       (dataSize + 2) = Some c"
    by (simp add: CalculateCRC_fold)
  show "\<exists>s''. modbusRTUSendData HAL_OK modbus functionCode data dataSize s
               = Some (MODBUS_RTU_SUCCESS, s'')"
    using a by (simp add: SendData_builds_frame [OF _ _ _ c])
qed

text \<open>Sizes 251 and 250.\<close>

theorem oversize_is_invalid_frame_witness:
  "modbusRTUSendData HAL_OK demo_handle 0x03 (replicate 251 0x11) 251 initial_state
     = Some (MODBUS_RTU_ERROR_INVALID_FRAME, initial_state) \<and>
   modbusRTUReciveData demo_handle 251 initial_state
     = (MODBUS_RTU_ERROR_INVALID_FRAME, initial_state) \<and>
   modbusRTUReciveData demo_handle 250 initial_state
     = (MODBUS_RTU_SUCCESS, initial_state\<lparr>uart_rx_armed := Some 254\<rparr>) \<and>
   (\<exists>s''. modbusRTUSendData HAL_OK demo_handle 0x03 (replicate 250 0x11) 250 initial_state
            = Some (MODBUS_RTU_SUCCESS, s''))"
proof -
  have big: "MODBUS_RTU_MAX_DATA_SIZE < 251" and fits: "250 \<le> MODBUS_RTU_MAX_DATA_SIZE"
    by (simp_all add: MODBUS_RTU_MAX_DATA_SIZE_def)
  have buf: "250 \<le> length (replicate 250 (0x11 :: uint8_t))"
    by simp
  show ?thesis
    using oversize_is_invalid_frame
            [of 251 HAL_OK demo_handle "0x03" "replicate 251 0x11" initial_state]
          oversize_is_invalid_frame
            [of 250 HAL_OK demo_handle "0x03" "replicate 250 0x11" initial_state]
          big fits buf packet_ok_examples(1)
    by simp
qed

subsection \<open>Checking a received buffer\<close>

text \<open>
  Claim C8 (wrong slave). With the flag set and a first byte in \<open>rxPacket\<close> other than the
  handle's slave id, \<open>modbusRTUCheckRxState\<close> returns \<open>MODBUS_RTU_ERROR_INVALID_SLAVE_ID\<close>,
  whatever the rest of the buffer and whatever \<open>dataSize\<close>: nothing is read for a CRC.
\<close>

theorem wrong_slave_before_crc:
  assumes "isRxDataReceived modbus"
    and "pkt_slaveId (rxPacket s) \<noteq> slaveId modbus"
  shows "modbusRTUCheckRxState modbus data dataSize s
           = Some (MODBUS_RTU_ERROR_INVALID_SLAVE_ID, modbus\<lparr>isRxDataReceived := False\<rparr>, data)"
  using assms by (simp add: modbusRTUCheckRxState_def check_received_def)

text \<open>
  A buffer from slave 2 that slave 2's handle accepts is refused by the handle of slave 1,
  also with a \<open>dataSize\<close> far beyond the array.
\<close>

theorem wrong_slave_before_crc_witness:
  "modbusRTUCheckRxState (demo_handle\<lparr>slaveId := 0x02, isRxDataReceived := True\<rparr>) caller_buffer 4
       (initial_state\<lparr>rxPacket := foreign_response\<rparr>)
     = Some (MODBUS_RTU_SUCCESS, demo_handle\<lparr>slaveId := 0x02\<rparr>, [0x00, 0x00, 0x00, 0x0A]) \<and>
   modbusRTUCheckRxState (demo_handle\<lparr>isRxDataReceived := True\<rparr>) caller_buffer 4
       (initial_state\<lparr>rxPacket := foreign_response\<rparr>)
     = Some (MODBUS_RTU_ERROR_INVALID_SLAVE_ID, demo_handle, caller_buffer) \<and>
   modbusRTUCheckRxState (demo_handle\<lparr>isRxDataReceived := True\<rparr>) caller_buffer 100000
       (initial_state\<lparr>rxPacket := foreign_response\<rparr>)
     = Some (MODBUS_RTU_ERROR_INVALID_SLAVE_ID, demo_handle, caller_buffer)"
proof -
  have valid: "modbusRTUCheckRxState (demo_handle\<lparr>slaveId := 0x02, isRxDataReceived := True\<rparr>)
       caller_buffer 4 (initial_state\<lparr>rxPacket := foreign_response\<rparr>)
     = Some (MODBUS_RTU_SUCCESS, demo_handle\<lparr>slaveId := 0x02\<rparr>, [0x00, 0x00, 0x00, 0x0A])"
    by code_simp
  have flag: "isRxDataReceived (demo_handle\<lparr>isRxDataReceived := True\<rparr>)"
    by simp
  have other: "pkt_slaveId (rxPacket (initial_state\<lparr>rxPacket := foreign_response\<rparr>))
                 \<noteq> slaveId (demo_handle\<lparr>isRxDataReceived := True\<rparr>)"
    by (simp add: foreign_response_def demo_handle_def)
  have cleared: "demo_handle\<lparr>isRxDataReceived := True\<rparr>\<lparr>isRxDataReceived := False\<rparr> = demo_handle"
    by (simp add: demo_handle_def)
  show ?thesis
    using valid wrong_slave_before_crc [OF flag other, of caller_buffer 4]
      wrong_slave_before_crc [OF flag other, of caller_buffer 100000]
    by (simp add: cleared)
qed



text \<open>
  Claim C9 (the flag). A call of \<open>modbusRTUCheckRxState\<close> with the flag set and its accesses
  in bounds (\<open>dataSize \<le> 250\<close>, a caller's buffer of \<open>dataSize\<close> bytes) runs the validation
  and clears the flag, whatever the result: \<open>MODBUS_RTU_ERROR_INVALID_SLAVE_ID\<close> when the
  first byte of \<open>rxPacket\<close> is not the handle's slave id; otherwise \<open>MODBUS_RTU_ERROR_CRC\<close>
  when the CRC over the first \<open>dataSize + 2\<close> bytes differs from
  \<open>(data[dataSize] << 8) | data[dataSize + 1]\<close>; otherwise \<open>MODBUS_RTU_SUCCESS\<close>, with the
  \<open>dataSize\<close> payload bytes copied to the start of the caller's buffer. On the two failures
  the caller's buffer is as before. Every call with the flag set that returns, in bounds
  or not, has cleared the flag, left the rest of the handle alone and returned one of
  these three results. A call with the flag clear returns \<open>MODBUS_RTU_RX_BUSY\<close> and changes
  neither the handle nor the buffer.
\<close>

theorem flag_protocol:
  "(isRxDataReceived modbus \<and> packet_ok (rxPacket s) \<and> dataSize \<le> MODBUS_RTU_MAX_DATA_SIZE
      \<and> dataSize \<le> length data \<longrightarrow>
      modbusRTUCheckRxState modbus data dataSize s =
        Some (if pkt_slaveId (rxPacket s) \<noteq> slaveId modbus
                then (MODBUS_RTU_ERROR_INVALID_SLAVE_ID, modbus\<lparr>isRxDataReceived := False\<rparr>, data)
              else if ModbusRTU_CalculateCRC (packet_bytes (rxPacket s)) (dataSize + 2)
                      \<noteq> Some (push_bit 8 (ucast (pkt_data (rxPacket s) ! dataSize))
                                OR ucast (pkt_data (rxPacket s) ! (dataSize + 1)))
                then (MODBUS_RTU_ERROR_CRC, modbus\<lparr>isRxDataReceived := False\<rparr>, data)
              else (MODBUS_RTU_SUCCESS, modbus\<lparr>isRxDataReceived := False\<rparr>,
                    take dataSize (pkt_data (rxPacket s)) @ drop dataSize data)))
 \<and> (isRxDataReceived modbus
      \<and> modbusRTUCheckRxState modbus data dataSize s = Some (result, modbus', data') \<longrightarrow>
      modbus' = modbus\<lparr>isRxDataReceived := False\<rparr>
    \<and> (result = MODBUS_RTU_ERROR_INVALID_SLAVE_ID
           \<longleftrightarrow> pkt_slaveId (rxPacket s) \<noteq> slaveId modbus)
    \<and> (result = MODBUS_RTU_SUCCESS \<or> result = MODBUS_RTU_ERROR_CRC
         \<or> result = MODBUS_RTU_ERROR_INVALID_SLAVE_ID)
    \<and> (result = MODBUS_RTU_SUCCESS \<longrightarrow>
         data' = take dataSize (pkt_data (rxPacket s)) @ drop dataSize data)
    \<and> (result \<noteq> MODBUS_RTU_SUCCESS \<longrightarrow> data' = data))
 \<and> (\<not> isRxDataReceived modbus \<longrightarrow>
      modbusRTUCheckRxState modbus data dataSize s = Some (MODBUS_RTU_RX_BUSY, modbus, data))"
proof (intro conjI impI)
  assume a: "isRxDataReceived modbus \<and> packet_ok (rxPacket s)
      \<and> dataSize \<le> MODBUS_RTU_MAX_DATA_SIZE \<and> dataSize \<le> length data"
  then have "check_received modbus data dataSize s =
     Some (if pkt_slaveId (rxPacket s) \<noteq> slaveId modbus
             then (MODBUS_RTU_ERROR_INVALID_SLAVE_ID, data)
           else if ModbusRTU_CalculateCRC (packet_bytes (rxPacket s)) (dataSize + 2)
                   \<noteq> Some (push_bit 8 (ucast (pkt_data (rxPacket s) ! dataSize))
                             OR ucast (pkt_data (rxPacket s) ! (dataSize + 1)))
             then (MODBUS_RTU_ERROR_CRC, data)
           else (MODBUS_RTU_SUCCESS, take dataSize (pkt_data (rxPacket s)) @ drop dataSize data))"
    by (intro check_received_in_bounds) simp_all
  then show "modbusRTUCheckRxState modbus data dataSize s =
        Some (if pkt_slaveId (rxPacket s) \<noteq> slaveId modbus
                then (MODBUS_RTU_ERROR_INVALID_SLAVE_ID, modbus\<lparr>isRxDataReceived := False\<rparr>, data)
              else if ModbusRTU_CalculateCRC (packet_bytes (rxPacket s)) (dataSize + 2)
                      \<noteq> Some (push_bit 8 (ucast (pkt_data (rxPacket s) ! dataSize))
                                OR ucast (pkt_data (rxPacket s) ! (dataSize + 1)))
                then (MODBUS_RTU_ERROR_CRC, modbus\<lparr>isRxDataReceived := False\<rparr>, data)
              else (MODBUS_RTU_SUCCESS, modbus\<lparr>isRxDataReceived := False\<rparr>,
                    take dataSize (pkt_data (rxPacket s)) @ drop dataSize data))"
    using a by (simp add: CheckRxState_flag_set)
next
  assume a: "isRxDataReceived modbus
      \<and> modbusRTUCheckRxState modbus data dataSize s = Some (result, modbus', data')"
  then show cleared: "modbus' = modbus\<lparr>isRxDataReceived := False\<rparr>"
    by (auto simp add: CheckRxState_flag_set split: option.splits)
  from a have r: "check_received modbus data dataSize s = Some (result, data')"
    by (auto simp add: CheckRxState_flag_set split: option.splits)
  from r show "(result = MODBUS_RTU_ERROR_INVALID_SLAVE_ID)
           = (pkt_slaveId (rxPacket s) \<noteq> slaveId modbus)"
    by (auto simp add: check_received_def Let_def bind_eq_Some_conv split: if_splits)
  from r show "result = MODBUS_RTU_SUCCESS \<or> result = MODBUS_RTU_ERROR_CRC
         \<or> result = MODBUS_RTU_ERROR_INVALID_SLAVE_ID"
    by (rule check_received_results)
  { assume "result = MODBUS_RTU_SUCCESS"
    with r show "data' = take dataSize (pkt_data (rxPacket s)) @ drop dataSize data"
      by (simp add: check_received_success_payload) }
  { assume "result \<noteq> MODBUS_RTU_SUCCESS"
    with r show "data' = data"
      by (rule check_received_keeps_buffer) }
next
  assume "\<not> isRxDataReceived modbus"
  then show "modbusRTUCheckRxState modbus data dataSize s = Some (MODBUS_RTU_RX_BUSY, modbus, data)"
    by (rule CheckRxState_flag_clear)
qed

text \<open>
  One buffer for each result: accepted for slave 2, refused by slave 1 for its slave id,
  refused for its CRC, and not looked at while the flag is clear.
\<close>

theorem flag_protocol_witness:
  "modbusRTUCheckRxState (demo_handle\<lparr>slaveId := 0x02, isRxDataReceived := True\<rparr>) caller_buffer 4
       (initial_state\<lparr>rxPacket := foreign_response\<rparr>)
     = Some (MODBUS_RTU_SUCCESS, demo_handle\<lparr>slaveId := 0x02\<rparr>, [0x00, 0x00, 0x00, 0x0A]) \<and>
   modbusRTUCheckRxState (demo_handle\<lparr>isRxDataReceived := True\<rparr>) caller_buffer 4
       (initial_state\<lparr>rxPacket := foreign_response\<rparr>)
     = Some (MODBUS_RTU_ERROR_INVALID_SLAVE_ID, demo_handle, caller_buffer) \<and>
   modbusRTUCheckRxState (demo_handle\<lparr>isRxDataReceived := True\<rparr>) caller_buffer 4
       (initial_state\<lparr>rxPacket := read_request\<rparr>)
     = Some (MODBUS_RTU_ERROR_CRC, demo_handle, caller_buffer) \<and>
   modbusRTUCheckRxState demo_handle caller_buffer 4 (initial_state\<lparr>rxPacket := foreign_response\<rparr>)
     = Some (MODBUS_RTU_RX_BUSY, demo_handle, caller_buffer)"
proof -
  let ?h1 = "demo_handle\<lparr>isRxDataReceived := True\<rparr>"
  let ?h2 = "demo_handle\<lparr>slaveId := 0x02, isRxDataReceived := True\<rparr>"
  let ?sf = "initial_state\<lparr>rxPacket := foreign_response\<rparr>"
  let ?sr = "initial_state\<lparr>rxPacket := read_request\<rparr>"
  have size: "4 \<le> MODBUS_RTU_MAX_DATA_SIZE \<and> 4 \<le> length caller_buffer"
    by (simp add: MODBUS_RTU_MAX_DATA_SIZE_def caller_buffer_def)
  have crc_f: "ModbusRTU_CalculateCRC (packet_bytes foreign_response) 6 = Some 0xFEC5"
    and crc_r: "ModbusRTU_CalculateCRC (packet_bytes read_request) 6 = Some 0xCDC5"
    by code_simp+
  have rcv_f: "(push_bit 8 (ucast (pkt_data foreign_response ! 4))
                  OR ucast (pkt_data foreign_response ! 5) :: uint16_t) = 0xFEC5"
    and rcv_r: "(push_bit 8 (ucast (pkt_data read_request ! 4))
                  OR ucast (pkt_data read_request ! 5) :: uint16_t) = 0xC5CD"
    by code_simp+
  have payload: "take 4 (pkt_data foreign_response) @ drop 4 caller_buffer = [0x00, 0x00, 0x00, 0x0A]"
    by code_simp
  have ids: "pkt_slaveId foreign_response = 0x02" "pkt_slaveId read_request = 0x01"
    "slaveId demo_handle = 0x01"
    by (simp_all add: foreign_response_def read_request_def demo_handle_def)
  have cleared: "?h1\<lparr>isRxDataReceived := False\<rparr> = demo_handle"
    "?h2\<lparr>isRxDataReceived := False\<rparr> = demo_handle\<lparr>slaveId := 0x02\<rparr>"
    "\<not> isRxDataReceived demo_handle"
    by (simp_all add: demo_handle_def)
  have okf: "packet_ok (rxPacket ?sf)" and okr: "packet_ok (rxPacket ?sr)"
    by (simp_all add: packet_ok_examples)
  have accepted: "modbusRTUCheckRxState ?h2 caller_buffer 4 ?sf
      = Some (MODBUS_RTU_SUCCESS, demo_handle\<lparr>slaveId := 0x02\<rparr>, [0x00, 0x00, 0x00, 0x0A])"
    using flag_protocol [of ?h2 ?sf 4 caller_buffer, THEN conjunct1] size okf
    by (simp add: crc_f rcv_f payload ids cleared)
  have foreign: "modbusRTUCheckRxState ?h1 caller_buffer 4 ?sf
      = Some (MODBUS_RTU_ERROR_INVALID_SLAVE_ID, demo_handle, caller_buffer)"
    using flag_protocol [of ?h1 ?sf 4 caller_buffer, THEN conjunct1] size okf
    by (simp add: ids cleared)
  have damaged: "modbusRTUCheckRxState ?h1 caller_buffer 4 ?sr
      = Some (MODBUS_RTU_ERROR_CRC, demo_handle, caller_buffer)"
    using flag_protocol [of ?h1 ?sr 4 caller_buffer, THEN conjunct1] size okr
    by (simp add: crc_r rcv_r ids cleared)
  have busy: "modbusRTUCheckRxState demo_handle caller_buffer 4 ?sf
      = Some (MODBUS_RTU_RX_BUSY, demo_handle, caller_buffer)"
    using flag_protocol [of demo_handle ?sf 4 caller_buffer, THEN conjunct2, THEN conjunct2] cleared(3)
    by simp
  from accepted foreign damaged busy show ?thesis
    by (intro conjI)
qed

text \<open>
  Claim C10 (the caller's buffer). Whenever \<open>modbusRTUCheckRxState\<close> returns a result other
  than \<open>MODBUS_RTU_SUCCESS\<close>, the caller's buffer is as it was before the call; and the call
  returns whenever its accesses stay in bounds.
\<close>

theorem buffer_untouched_unless_success:
  "(modbusRTUCheckRxState modbus data dataSize s = Some (result, modbus', data')
      \<and> result \<noteq> MODBUS_RTU_SUCCESS \<longrightarrow> data' = data)
 \<and> (packet_ok (rxPacket s) \<and> dataSize \<le> MODBUS_RTU_MAX_DATA_SIZE \<and> dataSize \<le> length data \<longrightarrow>
      modbusRTUCheckRxState modbus data dataSize s \<noteq> None)"
proof (intro conjI impI)
  assume a: "modbusRTUCheckRxState modbus data dataSize s = Some (result, modbus', data')
      \<and> result \<noteq> MODBUS_RTU_SUCCESS"
  show "data' = data"
  proof (cases "isRxDataReceived modbus")
    case True
    then have "check_received modbus data dataSize s = Some (result, data')"
      using a by (auto simp add: CheckRxState_flag_set split: option.splits)
    then show ?thesis
      using a by (auto dest: check_received_keeps_buffer)
  next
    case False
    then show ?thesis
      using a by (simp add: CheckRxState_flag_clear)
  qed
next
  assume "packet_ok (rxPacket s) \<and> dataSize \<le> MODBUS_RTU_MAX_DATA_SIZE \<and> dataSize \<le> length data"
  then show "modbusRTUCheckRxState modbus data dataSize s \<noteq> None"
    by (cases "isRxDataReceived modbus")
       (simp_all add: CheckRxState_flag_set CheckRxState_flag_clear check_received_in_bounds)
qed

text \<open>A buffer refused for its CRC leaves the caller's four bytes alone.\<close>

theorem buffer_untouched_unless_success_witness:
  "(\<exists>modbus' data'.
      modbusRTUCheckRxState (demo_handle\<lparr>isRxDataReceived := True\<rparr>) caller_buffer 4
          (initial_state\<lparr>rxPacket := read_request\<rparr>)
        = Some (MODBUS_RTU_ERROR_CRC, modbus', data') \<and> data' = caller_buffer) \<and>
   modbusRTUCheckRxState (demo_handle\<lparr>isRxDataReceived := True\<rparr>) caller_buffer 4
       (initial_state\<lparr>rxPacket := read_request\<rparr>) \<noteq> None"
proof -
  let ?h = "demo_handle\<lparr>isRxDataReceived := True\<rparr>"
  let ?s = "initial_state\<lparr>rxPacket := read_request\<rparr>"
  have run: "modbusRTUCheckRxState ?h caller_buffer 4 ?s
               = Some (MODBUS_RTU_ERROR_CRC, demo_handle, caller_buffer)"
    by code_simp
  have pre: "packet_ok (rxPacket ?s) \<and> 4 \<le> MODBUS_RTU_MAX_DATA_SIZE \<and> 4 \<le> length caller_buffer"
    by (simp add: packet_ok_examples MODBUS_RTU_MAX_DATA_SIZE_def caller_buffer_def)
  show ?thesis
    using buffer_untouched_unless_success
            [of ?h caller_buffer 4 ?s MODBUS_RTU_ERROR_CRC demo_handle caller_buffer] run pre
    by simp
qed

end
